theory Spec2Isabelle
  imports Main "HOL-Library.Sublist" "HOL-Library.Monad_Syntax"
begin

section \<open>Data model\<close>

text \<open>
  A blog entry is \<^verbatim>\<open>CollectionEntry<"blog">\<close>: an identifier and the data payload that
  the collection schema decodes from the front-matter.  Dates are JavaScript \<^verbatim>\<open>Date\<close>
  objects that passed \<^verbatim>\<open>z.date()\<close>, so each is a finite time value: an integral number of
  milliseconds since the epoch.  An optional (or nullable) field is an \<open>option\<close>; \<open>None\<close>
  stands for both \<^verbatim>\<open>undefined\<close> and \<^verbatim>\<open>null\<close>, which the operator \<^verbatim>\<open>??\<close> does not tell apart.
  Strings are lists of characters.
\<close>

record post_data =
  author :: string
  pubDatetime :: int
  modDatetime :: "int option"
  title :: string
  featured :: "bool option"
  draft :: "bool option"
  tags :: "string list"
  ogImage :: "string option"
  description :: string
  canonicalURL :: "string option"
  hideEditPost :: "bool option"
  timezone :: "string option"

record post =
  entry_id :: string
  data :: post_data

section \<open>String primitives of the host language\<close>

text \<open>
  \<^verbatim>\<open>String.prototype.split\<close> with a separator of one character: the pieces between the
  occurrences of the separator, in order.  The empty string gives one empty piece.
\<close>

fun split :: "char \<Rightarrow> string \<Rightarrow> string list" where
  "split sep [] = [[]]"
| "split sep (c # cs) =
     (if c = sep then [] # split sep cs
      else (case split sep cs of
              [] \<Rightarrow> [[c]]
            | seg # segs \<Rightarrow> (c # seg) # segs))"

text \<open>
  \<^verbatim>\<open>Array.prototype.pop\<close> on the temporary array: the last element, \<^verbatim>\<open>undefined\<close> on an
  empty array.
\<close>

definition pop :: "'a list \<Rightarrow> 'a option" where
  "pop xs = (if xs = [] then None else Some (last xs))"

text \<open>
  \<^verbatim>\<open>s.replace(/\.md$/, "")\<close>: the regular expression is not global, so the first match is
  replaced.  The search tries each start position from the left; the pattern matches at a
  position exactly when the rest of the string from there is \<^verbatim>\<open>.md\<close>, because \<^verbatim>\<open>$\<close> (without the
  multiline flag) only matches at the end of the input.
\<close>

fun replace_md :: "string \<Rightarrow> string" where
  "replace_md [] = []"
| "replace_md (c # cs) = (if c # cs = ''.md'' then [] else c # replace_md cs)"

text \<open>
  \<^verbatim>\<open>a?.f() || b\<close>: the optional chain yields \<^verbatim>\<open>undefined\<close> when \<open>a\<close> is; \<^verbatim>\<open>||\<close> takes the right
  operand when the left one is falsy, which for a string-or-undefined value means
  \<^verbatim>\<open>undefined\<close> or the empty string.
\<close>

definition or_else :: "string option \<Rightarrow> string \<Rightarrow> string" where
  "or_else v fallback =
     (case v of None \<Rightarrow> fallback
      | Some s \<Rightarrow> (if s = [] then fallback else s))"

section \<open>src/utils/blog/getPostPath.ts\<close>

definition getPostPath :: "post \<Rightarrow> string" where
  "getPostPath p =
     (let slug = or_else (map_option replace_md (pop (split CHR ''/'' (entry_id p)))) (entry_id p)
      in ''/blog/'' @ slug)"

definition getPostSlug :: "post \<Rightarrow> string" where
  "getPostSlug p =
     or_else (map_option replace_md (pop (split CHR ''/'' (entry_id p)))) (entry_id p)"

section \<open>src/config.ts\<close>

text \<open>
  The constant \<^verbatim>\<open>SITE\<close>.  Fields whose names the entry payload already uses carry the
  prefix \<open>site_\<close>; numbers are the integers the literals denote.
\<close>

record edit_post =
  enabled :: bool
  edit_text :: string
  url :: string

record site_config =
  website :: string
  site_author :: string
  profile :: string
  site_title :: string
  site_description :: string
  blogTitle :: string
  blogDescription :: string
  site_ogImage :: string
  lightAndDarkMode :: bool
  postPerIndex :: int
  postPerPage :: int
  scheduledPostMargin :: int
  showArchives :: bool
  showBackButton :: bool
  editPost :: edit_post
  dynamicOgImage :: bool
  dir :: string
  lang :: string
  site_timezone :: string

definition SITE :: site_config where
  "SITE =
     \<lparr> website = ''https://farhandigital.id'',
       site_author = ''Farhan'',
       profile = ''https://farhandigital.id/'',
       site_title = ''Farhan Digital'',
       site_description = ''Professional web development services for small businesses'',
       blogTitle = ''Farhan Digital | Blog'',
       blogDescription = ''Eternal archive of my thoughts, experiences, and learnings on web development, programming, and technology.'',
       site_ogImage = ''brand-logo.png'',
       lightAndDarkMode = True,
       postPerIndex = 4,
       postPerPage = 4,
       scheduledPostMargin = 15 * 60 * 1000,
       showArchives = True,
       showBackButton = True,
       editPost = \<lparr> enabled = False, edit_text = ''Edit page'',
                    url = ''https://github.com/yourname/your-blog/edit/main/'' \<rparr>,
       dynamicOgImage = True,
       dir = ''ltr'',
       lang = ''en'',
       site_timezone = ''UTC'' \<rparr>"

section \<open>src/pages/rss.xml.ts\<close>

text \<open>
  \<^verbatim>\<open>GET\<close> builds the options it hands to the feed library.  The collection that
  \<^verbatim>\<open>getCollection("blog")\<close> resolves to is the argument \<open>posts\<close>.  The module
  \<^verbatim>\<open>getSortedPosts\<close> is imported from a file that is not among the sources, so the sorter
  is an argument as well.  \<^verbatim>\<open>new Date(d)\<close> of a date \<open>d\<close> has the time value of \<open>d\<close>.
\<close>

record rss_item =
  link :: string
  item_title :: string
  item_description :: string
  pubDate :: int

record rss_options =
  feed_title :: string
  feed_description :: string
  site :: string
  items :: "rss_item list"

definition GET :: "(post list \<Rightarrow> post list) \<Rightarrow> post list \<Rightarrow> rss_options" where
  "GET getSortedPosts posts =
     (let sortedPosts = getSortedPosts posts
      in \<lparr> feed_title = blogTitle SITE,
           feed_description = blogDescription SITE,
           site = website SITE,
           items = map (\<lambda>post.
             \<lparr> link = getPostPath post,
               item_title = title (data post),
               item_description = description (data post),
               pubDate = (case modDatetime (data post) of
                            Some m \<Rightarrow> m
                          | None \<Rightarrow> pubDatetime (data post)) \<rparr>) sortedPosts \<rparr>)"

section \<open>The sorter\<close>

text \<open>
  Modelled from the spec: \<^verbatim>\<open>getSortedPosts\<close> (the file \<^verbatim>\<open>src/utils/blog/getSortedPosts.ts\<close> is
  not among the sources; only its call in \<^verbatim>\<open>rss.xml.ts\<close> is).  The effective date of the
  sorter's contract is \<^verbatim>\<open>modDatetime\<close> if present, else \<^verbatim>\<open>pubDatetime\<close>.
\<close>

definition effective_date :: "post \<Rightarrow> int" where
  "effective_date p =
     (case modDatetime (data p) of Some m \<Rightarrow> m | None \<Rightarrow> pubDatetime (data p))"

text \<open>
  Modelled from the spec: the stable sort by effective date, most recent first.  An entry
  is placed in front of the first entry that is not more recent than it is; the entries
  are placed from the last one of the input to the first one, so that among entries of
  the same date the earlier one of the input comes first.
\<close>

fun place :: "post \<Rightarrow> post list \<Rightarrow> post list" where
  "place p [] = [p]"
| "place p (q # qs) =
     (if effective_date q \<le> effective_date p then p # q # qs else q # place p qs)"

text \<open>
  Modelled from the spec: the optional filter drops the entries marked \<^verbatim>\<open>draft: true\<close> and
  those whose \<^verbatim>\<open>pubDatetime\<close> is in the future beyond the configured scheduling margin;
  \<open>now\<close> is the time of the build.
\<close>

definition postFilter :: "int \<Rightarrow> post \<Rightarrow> bool" where
  "postFilter now p \<longleftrightarrow>
     draft (data p) \<noteq> Some True \<and> pubDatetime (data p) \<le> now + scheduledPostMargin SITE"

text \<open>
  Modelled from the spec: the sorter, without the filter (\<open>None\<close>) or with it at a given
  time (\<open>Some now\<close>).
\<close>

definition getSortedPosts :: "int option \<Rightarrow> post list \<Rightarrow> post list" where
  "getSortedPosts filtering posts =
     foldr place (case filtering of None \<Rightarrow> posts | Some now \<Rightarrow> filter (postFilter now) posts) []"

section \<open>The collection schema (src/content.config.ts, as docs/ai-logs/MIGRATION_SUMMARY.md gives it)\<close>

text \<open>
  A front-matter value as the loader passes it to the schema.  A key that the front-matter
  omits reads as \<^verbatim>\<open>undefined\<close>.
\<close>

datatype raw = Undefined | Null | Str string | Bool bool | Num int | Date int | Arr "raw list"

datatype error = ZodError

text \<open>
  The schema combinators of the validation library, each as a decoder that yields \<open>None\<close>
  on a validation issue: \<^verbatim>\<open>z.string()\<close>, \<^verbatim>\<open>z.boolean()\<close>, \<^verbatim>\<open>z.date()\<close> and \<^verbatim>\<open>z.array(e)\<close> accept
  values of their own kind only; \<^verbatim>\<open>.optional()\<close> also accepts \<^verbatim>\<open>undefined\<close>, \<^verbatim>\<open>.nullable()\<close> also
  accepts \<^verbatim>\<open>null\<close>, and \<^verbatim>\<open>.default(v)\<close> replaces \<^verbatim>\<open>undefined\<close> by \<open>v\<close> and hands every other value
  to the inner schema.
\<close>

definition z_string :: "raw \<Rightarrow> string option" where
  "z_string r = (case r of Str s \<Rightarrow> Some s | _ \<Rightarrow> None)"

definition z_boolean :: "raw \<Rightarrow> bool option" where
  "z_boolean r = (case r of Bool b \<Rightarrow> Some b | _ \<Rightarrow> None)"

definition z_date :: "raw \<Rightarrow> int option" where
  "z_date r = (case r of Date t \<Rightarrow> Some t | _ \<Rightarrow> None)"

definition z_array :: "(raw \<Rightarrow> 'a option) \<Rightarrow> raw \<Rightarrow> 'a list option" where
  "z_array element r = (case r of Arr rs \<Rightarrow> those (map element rs) | _ \<Rightarrow> None)"

definition z_optional :: "(raw \<Rightarrow> 'a option) \<Rightarrow> raw \<Rightarrow> 'a option option" where
  "z_optional inner r = (if r = Undefined then Some None else map_option Some (inner r))"

definition z_nullable :: "(raw \<Rightarrow> 'a option option) \<Rightarrow> raw \<Rightarrow> 'a option option" where
  "z_nullable inner r = (if r = Null then Some None else inner r)"

definition z_default :: "'a \<Rightarrow> (raw \<Rightarrow> 'a option) \<Rightarrow> raw \<Rightarrow> 'a option" where
  "z_default v inner r = (if r = Undefined then Some v else inner r)"

text \<open>
  \<^verbatim>\<open>a.or(b)\<close> is the union of two schemas: the value is decoded by the first one that
  accepts it.  The framework's \<^verbatim>\<open>image()\<close> helper accepts a string, the path of the image,
  and rewrites it to a reference with the prefix \<^verbatim>\<open>__ASTRO_IMAGE_\<close>, which the framework
  resolves to the image later.
\<close>

definition z_or :: "(raw \<Rightarrow> 'a option) \<Rightarrow> (raw \<Rightarrow> 'a option) \<Rightarrow> raw \<Rightarrow> 'a option" where
  "z_or first second r = (case first r of Some v \<Rightarrow> Some v | None \<Rightarrow> second r)"

definition astro_image :: "raw \<Rightarrow> string option" where
  "astro_image r = (case r of Str s \<Rightarrow> Some (''__ASTRO_IMAGE_'' @ s) | _ \<Rightarrow> None)"

definition field :: "(string \<rightharpoonup> raw) \<Rightarrow> string \<Rightarrow> raw" where
  "field fm k = (case fm k of None \<Rightarrow> Undefined | Some v \<Rightarrow> v)"

text \<open>
  The object schema of the \<^verbatim>\<open>blog\<close> collection, field by field in the order of the source.
  The decoded \<open>ogImage\<close> is the string that \<^verbatim>\<open>image().or(z.string())\<close> yields.  A validation
  issue in any field fails the entry.
\<close>

definition blog_schema :: "(string \<rightharpoonup> raw) \<Rightarrow> error + post_data" where
  "blog_schema fm =
     (case do {
        a \<leftarrow> z_default ''Farhan'' z_string (field fm ''author'');
        pd \<leftarrow> z_date (field fm ''pubDatetime'');
        md \<leftarrow> z_nullable (z_optional z_date) (field fm ''modDatetime'');
        t \<leftarrow> z_string (field fm ''title'');
        f \<leftarrow> z_optional z_boolean (field fm ''featured'');
        dr \<leftarrow> z_optional z_boolean (field fm ''draft'');
        tg \<leftarrow> z_default [''others''] (z_array z_string) (field fm ''tags'');
        og \<leftarrow> z_optional (z_or astro_image z_string) (field fm ''ogImage'');
        de \<leftarrow> z_string (field fm ''description'');
        cu \<leftarrow> z_optional z_string (field fm ''canonicalURL'');
        he \<leftarrow> z_optional z_boolean (field fm ''hideEditPost'');
        tz \<leftarrow> z_optional z_string (field fm ''timezone'');
        Some \<lparr> author = a, pubDatetime = pd, modDatetime = md, title = t, featured = f,
               draft = dr, tags = tg, ogImage = og, description = de, canonicalURL = cu,
               hideEditPost = he, timezone = tz \<rparr>
      } of None \<Rightarrow> Inl ZodError | Some d \<Rightarrow> Inr d)"

section \<open>Descriptions used in the statements\<close>

text \<open>
  The declarative reading of what \<open>replace_md\<close> does: a string that ends in \<^verbatim>\<open>.md\<close> loses
  these three characters, any other string is unchanged.
\<close>

definition strip_md_suffix :: "string \<Rightarrow> string" where
  "strip_md_suffix s = (if suffix ''.md'' s then take (length s - 3) s else s)"

text \<open>
  The specification's wording, "strip a trailing file-extension suffix if present", read
  for any file extension: a segment with a dot loses everything from its last dot on.
\<close>

definition strip_extension :: "string \<Rightarrow> string" where
  "strip_extension s =
     (if CHR ''.'' \<in> set s then rev (tl (dropWhile (\<lambda>c. c \<noteq> CHR ''.'') (rev s))) else s)"

text \<open>
  The glossary's wording of the effective date: the later of the publish date and the
  modification date.
\<close>

definition later_date :: "post_data \<Rightarrow> int" where
  "later_date d =
     (case modDatetime d of None \<Rightarrow> pubDatetime d | Some m \<Rightarrow> max (pubDatetime d) m)"

section \<open>Sample entries\<close>

text \<open>
  A payload for the concrete entries of the examples (published 2024-01-01), a variant
  whose modification date (2024-01-01) is earlier than its publish date (2024-06-01), and
  a front-matter without tags that decodes to the first payload.
\<close>

definition sample_data :: post_data where
  "sample_data =
     \<lparr> author = ''Farhan'', pubDatetime = 1704067200000, modDatetime = None,
       title = ''My post'', featured = None, draft = None, tags = [''others''],
       ogImage = None, description = ''A post'', canonicalURL = None,
       hideEditPost = None, timezone = None \<rparr>"

definition backdated_data :: post_data where
  "backdated_data =
     sample_data\<lparr>pubDatetime := 1717200000000, modDatetime := Some 1704067200000\<rparr>"

definition sample_frontmatter :: "string \<rightharpoonup> raw" where
  "sample_frontmatter =
     [''title'' \<mapsto> Str ''My post'', ''description'' \<mapsto> Str ''A post'',
      ''pubDatetime'' \<mapsto> Date 1704067200000]"

section \<open>Properties of the string primitives\<close>

lemma split_not_Nil: "split sep s \<noteq> []"
  by (induction s) (auto split: list.splits)

lemma pop_split: "pop (split sep s) = Some (last (split sep s))"
  by (simp add: pop_def split_not_Nil)

lemma split_append_sep: "split sep (xs @ sep # ys) = split sep xs @ split sep ys"
  by (induction xs) (auto split: list.splits simp: split_not_Nil)

lemma split_no_sep: "sep \<notin> set s \<Longrightarrow> split sep s = [s]"
  by (induction s) (auto split: list.splits)

lemma last_split_append: "sep \<notin> set seg \<Longrightarrow> last (split sep (pre @ sep # seg)) = seg"
  by (simp add: split_append_sep split_no_sep)

lemma split_segments_no_sep: "seg \<in> set (split sep s) \<Longrightarrow> sep \<notin> set seg"
  by (induction s arbitrary: seg) (auto split: list.splits if_splits)

lemma last_split_no_sep: "sep \<notin> set (last (split sep s))"
  using split_segments_no_sep [of "last (split sep s)" sep s] split_not_Nil [of sep s]
  by simp

lemma split_last_decomp:
  assumes "sep \<in> set s"
  shows "\<exists>pre. s = pre @ sep # last (split sep s)"
proof -
  from assms obtain ys zs where s: "s = ys @ sep # zs" and zs: "sep \<notin> set zs"
    by (auto dest: split_list_last)
  from zs have "last (split sep (ys @ sep # zs)) = zs"
    by (rule last_split_append)
  with s show ?thesis by auto
qed

lemma replace_md_append: "replace_md (b @ ''.md'') = b"
proof (induction b)
  case Nil
  show ?case by simp
next
  case (Cons c b)
  have "length (c # b @ ''.md'') \<noteq> length ''.md''" by simp
  then have "c # b @ ''.md'' \<noteq> ''.md''" by metis
  with Cons show ?case by simp
qed

lemma replace_md_no_suffix: "\<not> suffix ''.md'' s \<Longrightarrow> replace_md s = s"
  by (induction s) (auto simp: suffix_Cons)

lemma replace_md_strip: "replace_md s = strip_md_suffix s"
proof (cases "suffix ''.md'' s")
  case True
  then obtain b where "s = b @ ''.md''" by (auto simp: suffix_def)
  with True show ?thesis by (simp add: strip_md_suffix_def replace_md_append del: replace_md.simps)
next
  case False
  then show ?thesis by (simp add: strip_md_suffix_def replace_md_no_suffix)
qed

section \<open>Properties of the path functions\<close>

lemma slug_with_separator:
  assumes "entry_id p = pre @ ''/'' @ seg" and "CHR ''/'' \<notin> set seg"
  shows "getPostSlug p = (if strip_md_suffix seg = [] then entry_id p else strip_md_suffix seg)"
proof -
  from assms have "last (split CHR ''/'' (entry_id p)) = seg"
    by (simp add: last_split_append)
  then show ?thesis
    by (simp add: getPostSlug_def pop_split or_else_def replace_md_strip)
qed


lemma strip_md_suffix_empty: "strip_md_suffix s = [] \<longleftrightarrow> s = [] \<or> s = ''.md''"
proof
  assume e: "strip_md_suffix s = []"
  show "s = [] \<or> s = ''.md''"
  proof (cases "suffix ''.md'' s")
    case True
    then obtain b where b: "s = b @ ''.md''" by (auto simp: suffix_def)
    with True e have "b = []" by (simp add: strip_md_suffix_def)
    with b show ?thesis by simp
  next
    case False
    with e show ?thesis by (simp add: strip_md_suffix_def)
  qed
next
  assume "s = [] \<or> s = ''.md''"
  then show "strip_md_suffix s = []" by (auto simp: strip_md_suffix_def suffix_Cons)
qed

lemma no_sep_not_suffix: "sep \<notin> set s \<Longrightarrow> \<not> suffix (sep # t) s"
  by (auto simp: suffix_def)

lemma empty_segment_iff:
  "replace_md (last (split CHR ''/'' s)) = [] \<longleftrightarrow>
     s = [] \<or> suffix ''/'' s \<or> s = ''.md'' \<or> suffix ''/.md'' s"
proof (cases "CHR ''/'' \<in> set s")
  case False
  then show ?thesis
    by (simp add: split_no_sep replace_md_strip strip_md_suffix_empty no_sep_not_suffix)
next
  case True
  then obtain pre where s: "s = pre @ CHR ''/'' # last (split CHR ''/'' s)"
    using split_last_decomp by blast
  define seg where "seg = last (split CHR ''/'' s)"
  have seg: "CHR ''/'' \<notin> set seg" by (simp add: seg_def last_split_no_sep)
  from s have s': "s = pre @ CHR ''/'' # seg" by (simp add: seg_def)
  have a: "suffix ''/'' s \<longleftrightarrow> seg = []"
  proof
    assume "suffix ''/'' s"
    then have "s \<noteq> [] \<and> last s = CHR ''/''" by (auto simp: suffix_def)
    with s' seg show "seg = []" by (cases "seg = []") (auto dest: last_in_set)
  next
    assume "seg = []" with s' show "suffix ''/'' s" by (simp add: suffix_def)
  qed
  have b: "suffix ''/.md'' s \<longleftrightarrow> seg = ''.md''"
  proof
    assume "suffix ''/.md'' s"
    then obtain zs where "pre @ CHR ''/'' # seg = zs @ CHR ''/'' # ''.md''"
      using s' by (auto simp: suffix_def)
    with seg show "seg = ''.md''"
      by (auto simp: append_eq_append_conv2 append_eq_Cons_conv Cons_eq_append_conv)
  next
    assume "seg = ''.md''" with s' show "suffix ''/.md'' s" by (simp add: suffix_def)
  qed
  from True have c: "s \<noteq> [] \<and> s \<noteq> ''.md''" by auto
  show ?thesis
    unfolding seg_def [symmetric] using a b c
    by (simp add: replace_md_strip strip_md_suffix_empty)
qed





text \<open>
  C1, as amended.  For every entry whose identifier contains a separator, written as
  \<open>pre @ ''/'' @ seg\<close> with no separator in the last segment \<open>seg\<close>, \<open>getPostPath\<close> returns
  \<^verbatim>\<open>/blog/\<close> followed by the last segment with a trailing \<^verbatim>\<open>.md\<close> removed; \<^verbatim>\<open>.md\<close> is the only
  extension that is removed.  When nothing is left of the segment (it is empty or is
  \<^verbatim>\<open>.md\<close>), the whole identifier follows \<^verbatim>\<open>/blog/\<close> instead.
\<close>

theorem getPostPath_with_separator:
  assumes "entry_id p = pre @ ''/'' @ seg" and "CHR ''/'' \<notin> set seg"
  shows "getPostPath p =
     ''/blog/'' @ (if strip_md_suffix seg = [] then entry_id p else strip_md_suffix seg)"
proof -
  from assms have "last (split CHR ''/'' (entry_id p)) = seg"
    by (simp add: last_split_append)
  then show ?thesis
    by (simp add: getPostPath_def pop_split or_else_def replace_md_strip)
qed

text \<open>The example of the specification: \<^verbatim>\<open>articles/my-post.md\<close> gives \<^verbatim>\<open>/blog/my-post\<close>.\<close>

theorem getPostPath_with_separator_witness:
  "getPostPath \<lparr>entry_id = ''articles/my-post.md'', data = sample_data\<rparr> = ''/blog/my-post''"
  using getPostPath_with_separator
    [of "\<lparr>entry_id = ''articles/my-post.md'', data = sample_data\<rparr>" "''articles''" "''my-post.md''"]
  by (simp add: strip_md_suffix_def suffix_Cons)

text \<open>
  C1 as stated fails: an extension other than \<^verbatim>\<open>.md\<close> stays in the path, and an identifier
  that ends in the separator gives the whole identifier, not the (empty) last segment.
\<close>

theorem getPostPath_any_extension_counterexample:
  "getPostPath \<lparr>entry_id = ''articles/my-post.txt'', data = sample_data\<rparr> = ''/blog/my-post.txt''
   \<and> ''/blog/'' @ strip_extension ''my-post.txt'' = ''/blog/my-post''
   \<and> getPostPath \<lparr>entry_id = ''articles/'', data = sample_data\<rparr> = ''/blog/articles/''
   \<and> ''/blog/'' @ strip_extension [] = ''/blog/''"
  by (simp add: getPostPath_def pop_def or_else_def strip_extension_def)

text \<open>
  C4, as amended.  For every entry whose identifier contains no separator, \<open>getPostPath\<close>
  returns \<^verbatim>\<open>/blog/\<close> followed by the identifier with a trailing \<^verbatim>\<open>.md\<close> removed (no other
  extension is removed), except for the identifier \<^verbatim>\<open>.md\<close> itself, which is kept whole.
\<close>

theorem getPostPath_no_separator:
  assumes "CHR ''/'' \<notin> set (entry_id p)"
  shows "getPostPath p =
     ''/blog/'' @ (if entry_id p = ''.md'' then ''.md'' else strip_md_suffix (entry_id p))"
proof -
  have "getPostPath p = ''/blog/'' @
     (if strip_md_suffix (entry_id p) = [] then entry_id p else strip_md_suffix (entry_id p))"
    using assms
    by (simp add: getPostPath_def pop_def split_no_sep or_else_def replace_md_strip)
  also have "(if strip_md_suffix (entry_id p) = [] then entry_id p
               else strip_md_suffix (entry_id p)) =
             (if entry_id p = ''.md'' then ''.md'' else strip_md_suffix (entry_id p))"
  proof (cases "entry_id p = []")
    case True
    then show ?thesis by (simp add: strip_md_suffix_def)
  next
    case False
    then show ?thesis by (simp add: strip_md_suffix_empty)
  qed
  finally show ?thesis .
qed

text \<open>The example of the specification: \<^verbatim>\<open>my-post\<close> gives \<^verbatim>\<open>/blog/my-post\<close>.\<close>

theorem getPostPath_no_separator_witness:
  "getPostPath \<lparr>entry_id = ''my-post'', data = sample_data\<rparr> = ''/blog/my-post''
   \<and> getPostPath \<lparr>entry_id = ''my-post.md'', data = sample_data\<rparr> = ''/blog/my-post''"
  using getPostPath_no_separator [of "\<lparr>entry_id = ''my-post'', data = sample_data\<rparr>"]
    getPostPath_no_separator [of "\<lparr>entry_id = ''my-post.md'', data = sample_data\<rparr>"]
  by (simp add: strip_md_suffix_def suffix_Cons)

text \<open>
  C4 as stated fails: the identifier \<^verbatim>\<open>.md\<close> is not reduced to the empty slug, and an
  extension other than \<^verbatim>\<open>.md\<close> is not removed.
\<close>

theorem getPostPath_no_separator_counterexample:
  "getPostPath \<lparr>entry_id = ''.md'', data = sample_data\<rparr> = ''/blog/.md''
   \<and> ''/blog/'' @ strip_md_suffix ''.md'' = ''/blog/''
   \<and> getPostPath \<lparr>entry_id = ''notes.txt'', data = sample_data\<rparr> = ''/blog/notes.txt''
   \<and> ''/blog/'' @ strip_extension ''notes.txt'' = ''/blog/notes''"
  by (simp add: getPostPath_def pop_def or_else_def strip_extension_def strip_md_suffix_def suffix_Cons)

text \<open>
  C5.  For every entry whose last segment, after splitting the identifier at the
  separators and after the extension stripping of the code, is the empty string (an
  identifier that ends in the separator, for example), \<open>getPostPath\<close> falls back to the
  whole, unmodified identifier: it returns \<^verbatim>\<open>/blog/\<close> followed by the identifier.  By
  \<open>empty_segment_iff\<close> these are the empty identifier, the identifiers that end in the
  separator, and those whose last segment is \<^verbatim>\<open>.md\<close>.
\<close>

theorem getPostPath_empty_fallback:
  assumes "replace_md (last (split CHR ''/'' (entry_id p))) = []"
  shows "getPostPath p = ''/blog/'' @ entry_id p"
  using assms by (simp add: getPostPath_def pop_split or_else_def)

theorem getPostPath_empty_fallback_witness:
  "replace_md (last (split CHR ''/'' ''articles/'')) = []
   \<and> getPostPath \<lparr>entry_id = ''articles/'', data = sample_data\<rparr> = ''/blog/articles/''"
  using getPostPath_empty_fallback [of "\<lparr>entry_id = ''articles/'', data = sample_data\<rparr>"]
  by simp





text \<open>
  C9.  For every blog entry, \<open>getPostPath\<close> is the fixed route prefix \<^verbatim>\<open>/blog/\<close> followed by
  \<open>getPostSlug\<close> of the same entry: both functions compute the same slug.
\<close>

theorem getPostPath_is_prefix_slug: "getPostPath p = ''/blog/'' @ getPostSlug p"
  unfolding getPostPath_def getPostSlug_def Let_def by (rule refl)

text \<open>
  C7.  \<open>getPostPath\<close> returns, for every identifier (the empty one too), a string that
  starts with \<^verbatim>\<open>/blog/\<close>.  The array that \<open>split\<close> produces is never empty, so \<open>pop\<close> never
  yields \<^verbatim>\<open>undefined\<close> and the optional chain always calls \<open>replace\<close>.
\<close>

theorem getPostPath_total:
  "split CHR ''/'' (entry_id p) \<noteq> []
   \<and> (\<exists>seg. pop (split CHR ''/'' (entry_id p)) = Some seg)
   \<and> prefix ''/blog/'' (getPostPath p)"
  unfolding getPostPath_def Let_def by (simp add: split_not_Nil pop_split)

section \<open>Properties of the configuration\<close>

text \<open>
  C10.  The scheduling margin of the site configuration is \<open>15 * 60 * 1000\<close>, that is
  900000 milliseconds, a quarter of an hour.
\<close>

theorem scheduledPostMargin_value:
  "scheduledPostMargin SITE = 15 * 60 * 1000 \<and> scheduledPostMargin SITE = 900000"
  by (simp add: SITE_def)

section \<open>Properties of the feed\<close>

text \<open>
  C2, as amended.  The feed has one item for each sorted post, in the same order, and the
  publication date of the item is the post's \<^verbatim>\<open>modDatetime\<close> when that is present and its
  \<^verbatim>\<open>pubDatetime\<close> otherwise.  This is the later of the two dates whenever \<^verbatim>\<open>modDatetime\<close> is
  absent or is not earlier than \<^verbatim>\<open>pubDatetime\<close>.
\<close>

theorem GET_pubDate:
  "length (items (GET srt posts)) = length (srt posts)
   \<and> (\<forall>i < length (srt posts).
        pubDate (items (GET srt posts) ! i) =
          (case modDatetime (data (srt posts ! i)) of
             Some m \<Rightarrow> m
           | None \<Rightarrow> pubDatetime (data (srt posts ! i)))
        \<and> ((\<forall>m. modDatetime (data (srt posts ! i)) = Some m \<longrightarrow> pubDatetime (data (srt posts ! i)) \<le> m)
             \<longrightarrow> pubDate (items (GET srt posts) ! i) = later_date (data (srt posts ! i))))"
  by (auto simp: GET_def Let_def later_date_def split: option.splits)

text \<open>
  An entry modified on 2024-06-01, after its publication: the item carries that date,
  which is the later one.
\<close>

theorem GET_pubDate_witness:
  "pubDate (items (GET (\<lambda>posts. posts)
       [\<lparr>entry_id = ''articles/my-post'', data = sample_data\<lparr>modDatetime := Some 1717200000000\<rparr>\<rparr>]) ! 0)
     = 1717200000000
   \<and> later_date (sample_data\<lparr>modDatetime := Some 1717200000000\<rparr>) = 1717200000000"
  using GET_pubDate [of "\<lambda>posts. posts"
      "[\<lparr>entry_id = ''articles/my-post'', data = sample_data\<lparr>modDatetime := Some 1717200000000\<rparr>\<rparr>]"]
  by (simp add: sample_data_def later_date_def)

text \<open>
  C2 as stated fails.  The collection holds one entry, so the sorted sequence is that
  entry.  Its \<^verbatim>\<open>modDatetime\<close> (2024-01-01) is earlier than its \<^verbatim>\<open>pubDatetime\<close> (2024-06-01):
  the item carries the earlier date, not the later one.
\<close>

theorem GET_pubDate_counterexample:
  "pubDate (hd (items (GET (\<lambda>posts. posts) [\<lparr>entry_id = ''articles/my-post'', data = backdated_data\<rparr>])))
     = 1704067200000
   \<and> later_date backdated_data = 1717200000000"
  by (simp add: GET_def later_date_def backdated_data_def sample_data_def)

section \<open>Properties of the sorter\<close>

lemma filter_place:
  "filter (\<lambda>q. effective_date q = d) (place p qs) =
     (if effective_date p = d then p # filter (\<lambda>q. effective_date q = d) qs
      else filter (\<lambda>q. effective_date q = d) qs)"
  by (induction qs) auto

lemma set_place: "set (place p qs) = insert p (set qs)"
  by (induction qs) auto

lemma sorted_place:
  "sorted_wrt (\<lambda>a b. effective_date b \<le> effective_date a) qs \<Longrightarrow>
   sorted_wrt (\<lambda>a b. effective_date b \<le> effective_date a) (place p qs)"
  by (induction qs) (auto simp: set_place)

lemma sorted_foldr_place:
  "sorted_wrt (\<lambda>a b. effective_date b \<le> effective_date a) (foldr place ps [])"
  by (induction ps) (simp_all add: sorted_place)

lemma filter_foldr_place:
  "filter (\<lambda>q. effective_date q = d) (foldr place ps []) = filter (\<lambda>q. effective_date q = d) ps"
  by (induction ps) (simp_all add: filter_place)

text \<open>
  The examples of the specification: entries published on 2024-01-01 and 2024-03-01 come
  out as 2024-03-01, 2024-01-01; an entry published on 2024-01-01 and modified on
  2024-06-01 sorts by 2024-06-01, here in front of one published on 2024-03-01; entries of
  the same date keep the order of the input.
\<close>

lemma getSortedPosts_examples:
  "map entry_id (getSortedPosts None
     [\<lparr>entry_id = ''jan'', data = sample_data\<rparr>,
      \<lparr>entry_id = ''mar'', data = sample_data\<lparr>pubDatetime := 1709251200000\<rparr>\<rparr>])
     = [''mar'', ''jan'']"
  "map entry_id (getSortedPosts None
     [\<lparr>entry_id = ''mar'', data = sample_data\<lparr>pubDatetime := 1709251200000\<rparr>\<rparr>,
      \<lparr>entry_id = ''jan-first'', data = sample_data\<rparr>,
      \<lparr>entry_id = ''jan-second'', data = sample_data\<rparr>,
      \<lparr>entry_id = ''jan-modified-jun'', data = sample_data\<lparr>modDatetime := Some 1717200000000\<rparr>\<rparr>])
     = [''jan-modified-jun'', ''mar'', ''jan-first'', ''jan-second'']"
  by (simp_all add: getSortedPosts_def effective_date_def sample_data_def)

text \<open>
  C3.  For every collection of entries the sorter produces a sequence that is
  non-increasing in effective date (\<^verbatim>\<open>modDatetime\<close> if present, else \<^verbatim>\<open>pubDatetime\<close>), most
  recent first, and the sort is stable: for every date, the entries of that date appear in
  the output in the order they have in the input (of those the optional filter keeps).
\<close>

theorem getSortedPosts_sorted_stable:
  "sorted_wrt (\<lambda>a b. effective_date b \<le> effective_date a) (getSortedPosts filtering posts)
   \<and> filter (\<lambda>p. effective_date p = d) (getSortedPosts filtering posts) =
       filter (\<lambda>p. effective_date p = d)
         (case filtering of None \<Rightarrow> posts | Some now \<Rightarrow> filter (postFilter now) posts)"
  by (simp add: getSortedPosts_def sorted_foldr_place filter_foldr_place)

section \<open>Properties of the schema\<close>

lemma tags_of_schema:
  assumes "blog_schema fm = Inr d"
  shows "Some (tags d) = z_default [''others''] (z_array z_string) (field fm ''tags'')"
  using assms unfolding blog_schema_def
  by (auto split: option.splits Option.bind_splits)

lemma ogImage_example:
  "z_optional (z_or astro_image z_string) (Str ''cover.png'') = Some (Some ''__ASTRO_IMAGE_cover.png'')"
  "z_optional (z_or astro_image z_string) Undefined = Some None"
  "z_optional (z_or astro_image z_string) (Num 3) = None"
  by (simp_all add: z_optional_def z_or_def astro_image_def z_string_def)

lemma z_string_Some: "z_string r = Some s \<longleftrightarrow> r = Str s"
  by (cases r) (auto simp: z_string_def)

lemma those_z_string:
  "those (map z_string rs) = Some ts \<longleftrightarrow> rs = map Str ts"
proof (induction rs arbitrary: ts)
  case Nil
  show ?case by auto
next
  case (Cons r rs)
  show ?case
  proof (cases "z_string r")
    case None
    then have "r \<noteq> Str s" for s
      by (auto simp: z_string_def)
    with None show ?thesis
      by (cases ts) auto
  next
    case (Some s)
    then have r: "r = Str s"
      by (simp add: z_string_Some)
    show ?thesis
    proof (cases "those (map z_string rs)")
      case None
      with Some Cons.IH r show ?thesis
        by (cases ts) auto
    next
      case inner: (Some us)
      with Cons.IH [of us] have "rs = map Str us"
        by simp
      with Some inner r show ?thesis
        by (cases ts) (auto simp: inj_map_eq_map inj_on_def)
    qed
  qed
qed

text \<open>
  C8, as amended.  For every entry that the schema accepts: when the front-matter omits
  the tags field, the decoded tags are \<open>[''others'']\<close>; a list of tags that the
  front-matter supplies is kept as given (and a supplied value that the schema accepts is
  such a list of strings); so the decoded tags are empty exactly when the front-matter
  gives the empty list for the field, and non-empty for every other accepted entry.
\<close>

theorem blog_schema_tags:
  assumes "blog_schema fm = Inr d"
  shows "(field fm ''tags'' = Undefined \<longrightarrow> tags d = [''others''])
         \<and> (field fm ''tags'' = Arr (map Str ts) \<longrightarrow> tags d = ts)
         \<and> (field fm ''tags'' \<noteq> Undefined \<longrightarrow> field fm ''tags'' = Arr (map Str (tags d)))
         \<and> (tags d = [] \<longleftrightarrow> field fm ''tags'' = Arr [])"
proof -
  have t: "Some (tags d) = z_default [''others''] (z_array z_string) (field fm ''tags'')"
    using assms by (rule tags_of_schema)
  show ?thesis
  proof (cases "field fm ''tags''")
    case (Arr rs)
    with t have "those (map z_string rs) = Some (tags d)"
      by (simp add: z_default_def z_array_def)
    then have rs: "rs = map Str (tags d)"
      by (simp add: those_z_string)
    have "map Str (tags d) = map Str ts \<longleftrightarrow> tags d = ts"
      by (simp add: inj_map_eq_map inj_on_def)
    with Arr rs show ?thesis
      by auto
  qed (use t in \<open>simp_all add: z_default_def z_array_def\<close>)
qed

text \<open>
  A front-matter without the field decodes to the tags \<open>[''others'']\<close>, and one that
  supplies two tags decodes to these two tags.
\<close>

theorem blog_schema_tags_witness:
  "blog_schema sample_frontmatter = Inr sample_data
   \<and> field sample_frontmatter ''tags'' = Undefined
   \<and> tags sample_data = [''others'']
   \<and> blog_schema (sample_frontmatter(''tags'' \<mapsto> Arr [Str ''astro'', Str ''web'']))
       = Inr (sample_data\<lparr>tags := [''astro'', ''web'']\<rparr>)
   \<and> tags (sample_data\<lparr>tags := [''astro'', ''web'']\<rparr>) = [''astro'', ''web'']"
proof -
  have d: "blog_schema sample_frontmatter = Inr sample_data"
    by (simp add: blog_schema_def sample_frontmatter_def sample_data_def field_def
        z_default_def z_optional_def z_nullable_def z_string_def z_date_def)
  have u: "field sample_frontmatter ''tags'' = Undefined"
    by (simp add: sample_frontmatter_def field_def)
  have d': "blog_schema (sample_frontmatter(''tags'' \<mapsto> Arr [Str ''astro'', Str ''web'']))
      = Inr (sample_data\<lparr>tags := [''astro'', ''web'']\<rparr>)"
    by (simp add: blog_schema_def sample_frontmatter_def sample_data_def field_def
        z_default_def z_optional_def z_nullable_def z_string_def z_date_def z_array_def)
  have u': "field (sample_frontmatter(''tags'' \<mapsto> Arr [Str ''astro'', Str ''web''])) ''tags''
      = Arr (map Str [''astro'', ''web''])"
    by (simp add: field_def)
  from blog_schema_tags [OF d] u have "tags sample_data = [''others'']"
    by simp
  moreover from blog_schema_tags [OF d', of "[''astro'', ''web'']"] u'
  have "tags (sample_data\<lparr>tags := [''astro'', ''web'']\<rparr>) = [''astro'', ''web'']"
    by blast
  ultimately show ?thesis
    using d u d' by blast
qed

text \<open>
  C8 as stated fails: a front-matter with \<^verbatim>\<open>tags: []\<close> is accepted, and its tags stay empty.
\<close>

theorem blog_schema_tags_counterexample:
  "blog_schema (sample_frontmatter(''tags'' \<mapsto> Arr [])) = Inr (sample_data\<lparr>tags := []\<rparr>)
   \<and> tags (sample_data\<lparr>tags := []\<rparr>) = []"
  by (simp add: blog_schema_def sample_frontmatter_def sample_data_def field_def
      z_default_def z_optional_def z_nullable_def z_string_def z_date_def z_array_def)

end
